theory Spec2Isabelle
  imports Complex_Main "HOL-Library.Sublist"
begin

section \<open>The ABA atlas adapter (brainrender/atlases/aba.py)\<close>

text \<open>
  A shallow embedding of the argument-normalisation and coordinate code of the class
  \<open>ABA\<close>. A coordinate is the real number a Python float or int stands for. The
  two subtractions of \<open>mirror_point_across_hemispheres\<close> are rounded as IEEE doubles
  round them; comparisons of floats are exact as they are; the quotient and the
  rounding of the voxel computation are taken exactly.
  Exceptions are values of the type \<open>error\<close>; a function that may raise returns
  \<open>error + 'a\<close> with \<open>Inl\<close> the exception.
\<close>

subsection \<open>Exceptions\<close>

datatype error =
    ValueError
  | IndexError
  | KeyError
  | TypeError
  | AttributeError
  | NameError
  | NotImplementedError

subsection \<open>Class attributes\<close>

text \<open>\<open>resolution = 25\<close>, \<open>_root_bounds\<close> and \<open>_root_midpoint\<close> of the class body.\<close>

definition resolution :: real where
  "resolution = 25"

definition np_mean :: "real list \<Rightarrow> real" where
  "np_mean xs = sum_list xs / real (length xs)"


definition root_midpoint :: "real list" where
  "root_midpoint = [np_mean [-17, 13193], np_mean [134, 7564], np_mean [486, 10891]]"

subsection \<open>Rounding\<close>

text \<open>
  \<open>np.round\<close> rounds to the nearest integer and a tie to the even neighbour;
  \<open>astype(int)\<close> of the integral result is that integer.
\<close>

definition np_round :: "real \<Rightarrow> int" where
  "np_round x =
     (let f = \<lfloor>x\<rfloor>; d = x - of_int f
      in if d < 1 / 2 then f
         else if 1 / 2 < d then f + 1
         else if even f then f else f + 1)"

text \<open>
  The result of a float operation is its exact value rounded to the nearest double, a
  tie going to the even mantissa: a non-zero \<open>x\<close> with \<open>2^e \<le> |x| < 2^(e+1)\<close> is rounded
  to a multiple of \<open>2^(e-52)\<close>. The exponent is not bounded here: no overflow to
  infinity is modelled, and below the normal range a difference of two doubles is a
  double already.
\<close>

definition float_round :: "real \<Rightarrow> real" where
  "float_round x =
     (if x = 0 then 0
      else let ulp = 2 powr (of_int \<lfloor>log 2 \<bar>x\<bar>\<rfloor> - 52)
           in of_int (np_round (x / ulp)) * ulp)"

text \<open>\<open>a - b\<close> on floats.\<close>

definition float_sub :: "real \<Rightarrow> real \<Rightarrow> real" where
  "float_sub a b = float_round (a - b)"

subsection \<open>Hemispheres\<close>

text \<open>
  A point is a Python list of numbers. \<open>point[2]\<close> raises IndexError on a list with
  fewer than three entries.
\<close>

definition get_hemisphere_from_point :: "real list \<Rightarrow> error + string" where
  "get_hemisphere_from_point point =
     (if length point \<le> 2 then Inl IndexError
      else if point ! 2 < root_midpoint ! 2 then Inr ''left''
      else Inr ''right'')"

definition get_hemispere_from_point :: "real list \<Rightarrow> error + string" where
  "get_hemispere_from_point p0 =
     (if length p0 \<le> 2 then Inl IndexError
      else if p0 ! 2 > root_midpoint ! 2 then Inr ''right''
      else Inr ''left'')"

text \<open>
  \<open>mirror_point_across_hemispheres\<close> assigns to \<open>point[2]\<close> in place and returns the
  same list object; the model returns the updated list. Both subtractions (lines 723
  and 724) are float subtractions: the midline is the float 5688.5.
\<close>

definition mirror_point_across_hemispheres :: "real list \<Rightarrow> error + real list" where
  "mirror_point_across_hemispheres point =
     (if length point \<le> 2 then Inl IndexError
      else let delta = float_sub (point ! 2) (root_midpoint ! 2)
           in Inr (point[2 := float_sub (root_midpoint ! 2) delta]))"

subsection \<open>Coordinate to voxel\<close>

text \<open>Line 845: \<open>voxel = np.round(np.array(p0) / self.resolution).astype(int)\<close>.\<close>

definition voxel :: "real list \<Rightarrow> int list" where
  "voxel p0 = map (\<lambda>x. np_round (x / resolution)) p0"

subsection \<open>Python values\<close>

text \<open>
  The colour arguments are dynamically typed: \<open>None\<close>, a string, a number, a list, a
  tuple or a dict with string keys. A dict is an association list without repeated keys.
\<close>

datatype pyval =
    PNone
  | PStr string
  | PInt int
  | PFloat real
  | PList "pyval list"
  | PTuple "pyval list"
  | PDict "(string \<times> pyval) list"

datatype pytype = TNone | TStr | TInt | TFloat | TList | TTuple | TDict

text \<open>\<open>type(c)\<close>.\<close>

fun type_of :: "pyval \<Rightarrow> pytype" where
  "type_of PNone = TNone"
| "type_of (PStr _) = TStr"
| "type_of (PInt _) = TInt"
| "type_of (PFloat _) = TFloat"
| "type_of (PList _) = TList"
| "type_of (PTuple _) = TTuple"
| "type_of (PDict _) = TDict"

text \<open>\<open>d.pop(k, default)\<close> and \<open>d.get(k, default)\<close>, as the value they return.\<close>

definition dict_pop :: "(string \<times> 'a) list \<Rightarrow> string \<Rightarrow> 'a \<Rightarrow> 'a" where
  "dict_pop d k dflt = (case map_of d k of None \<Rightarrow> dflt | Some v \<Rightarrow> v)"

text \<open>\<open>xs[n]\<close> for \<open>n \<ge> 0\<close>.\<close>

definition py_index :: "'a list \<Rightarrow> nat \<Rightarrow> error + 'a" where
  "py_index xs n = (if n < length xs then Inr (xs ! n) else Inl IndexError)"

text \<open>\<open>x[0]\<close> on a Python value; a dict here has string keys only, so \<open>0\<close> is no key.\<close>

fun py_first :: "pyval \<Rightarrow> error + pyval" where
  "py_first (PList []) = Inl IndexError"
| "py_first (PList (x # _)) = Inr x"
| "py_first (PTuple []) = Inl IndexError"
| "py_first (PTuple (x # _)) = Inr x"
| "py_first (PStr []) = Inl IndexError"
| "py_first (PStr (c # _)) = Inr (PStr [c])"
| "py_first (PDict _) = Inl KeyError"
| "py_first PNone = Inl TypeError"
| "py_first (PInt _) = Inl TypeError"
| "py_first (PFloat _) = Inl TypeError"

text \<open>The elements a \<open>for\<close> loop or \<open>len\<close> sees in a Python value.\<close>

fun py_elements :: "pyval \<Rightarrow> error + pyval list" where
  "py_elements (PList xs) = Inr xs"
| "py_elements (PTuple xs) = Inr xs"
| "py_elements (PStr s) = Inr (map (\<lambda>c. PStr [c]) s)"
| "py_elements (PDict d) = Inr (map (\<lambda>kv. PStr (fst kv)) d)"
| "py_elements PNone = Inl TypeError"
| "py_elements (PInt _) = Inl TypeError"
| "py_elements (PFloat _) = Inl TypeError"

subsection \<open>Names of the module brainrender and of the libraries it imports\<close>

text \<open>
  The constants and helper functions that aba.py takes from \<open>brainrender\<close>,
  \<open>brainrender.colors\<close>, \<open>brainrender.Utils\<close>, \<open>brainrender.morphology.utils\<close> and
  \<open>os.path\<close> are not part of the file; the functions below take them as a record.
  An actor (a vtkplotter Mesh) is a handle; what \<open>.c(color)\<close> sets is kept in a store
  from handles to colours.
\<close>

datatype part = Actor nat | Absent | NotActor

record neuron_actors =
  soma :: part
  dendrites :: part
  axon :: part

record brainrender =
  get_random_colors :: "nat \<Rightarrow> pyval list"
  mapscales_cmaps :: "string list"
  colorMap :: "nat \<Rightarrow> string \<Rightarrow> int \<Rightarrow> int \<Rightarrow> pyval"
  getColor :: "string \<Rightarrow> pyval"
  check_colors :: "pyval \<Rightarrow> bool"
  isfile :: "string \<Rightarrow> bool"
  actors_with_morphapi_swcfile :: "string \<Rightarrow> neuron_actors"
  actors_with_morphapi_neuron :: "nat \<Rightarrow> neuron_actors"
  is_any_item_in_list :: "string list \<Rightarrow> string list \<Rightarrow> bool"
  TRACT_DEFAULT_COLOR :: pyval
  TRACTO_ALPHA :: real
  TRACTO_RADIUS :: real
  TRACTO_RES :: int
  INJECTION_VOLUME_SIZE :: real

subsection \<open>get_neurons: the colours\<close>

record neuron_colors =
  colors_soma :: "pyval list"
  colors_axon :: "pyval list"
  colors_dendrites :: "pyval list"

text \<open>
  Lines 295-303. The loop runs over \<open>colors\<close>, the dict built at line 241 with the keys
  soma, axon and dendrites, so \<open>col\<close> is a key of that dict (a string) and
  \<open>col.keys()\<close> raises AttributeError; on a dict it would collect the three colours.
\<close>

fun dict_colors_loop ::
  "pyval list \<Rightarrow> pyval list \<times> pyval list \<times> pyval list
     \<Rightarrow> error + (pyval list \<times> pyval list \<times> pyval list)" where
  "dict_colors_loop [] acc = Inr acc"
| "dict_colors_loop (PDict col # rest) (soma_colors, dendrites_colors, axon_colors) =
     (case map_of col ''soma'' of
        None \<Rightarrow> Inl ValueError
      | Some s \<Rightarrow>
          dict_colors_loop rest
            (soma_colors @ [s],
             dendrites_colors @ [dict_pop col ''dendrites'' s],
             axon_colors @ [dict_pop col ''axon'' s]))"
| "dict_colors_loop (_ # rest) acc = Inl AttributeError"

text \<open>Lines 284-315: \<open>color\<close> is a list (\<open>is_tuple = False\<close>) or a tuple.\<close>

definition list_colors :: "nat \<Rightarrow> bool \<Rightarrow> pyval list \<Rightarrow> error + neuron_colors" where
  "list_colors N is_tuple color =
     (if length color \<noteq> N then Inl ValueError
      else if length (remdups (map type_of color)) > 1 then Inl ValueError
      else case color of
        [] \<Rightarrow> Inl IndexError
      | c0 # _ \<Rightarrow>
          if type_of c0 = TDict then
            (case dict_colors_loop [PStr ''soma'', PStr ''axon'', PStr ''dendrites''] ([], [], []) of
               Inl e \<Rightarrow> Inl e
             | Inr (soma_colors, dendrites_colors, axon_colors) \<Rightarrow>
                 Inr \<lparr>colors_soma = soma_colors, colors_axon = axon_colors,
                      colors_dendrites = dendrites_colors\<rparr>)
          else if is_tuple then Inl AttributeError
          else Inr \<lparr>colors_soma = color, colors_axon = color, colors_dendrites = color\<rparr>)"

text \<open>Lines 239-318, up to the check of the lengths.\<close>

definition prepare_colors :: "brainrender \<Rightarrow> nat \<Rightarrow> pyval \<Rightarrow> error + neuron_colors" where
  "prepare_colors B N color =
     (case color of
        PNone \<Rightarrow>
          (let cols = get_random_colors B N
           in Inr \<lparr>colors_soma = cols, colors_axon = cols, colors_dendrites = cols\<rparr>)
      | PStr name \<Rightarrow>
          (let cols =
                 (if name \<in> set (mapscales_cmaps B)
                  then map (\<lambda>n. colorMap B n name (- 2) (int N + 2)) [0..<N]
                  else replicate N (getColor B name))
           in Inr \<lparr>colors_soma = cols, colors_axon = cols, colors_dendrites = cols\<rparr>)
      | PDict d \<Rightarrow>
          (case map_of d ''soma'' of
             None \<Rightarrow> Inl ValueError
           | Some s \<Rightarrow>
               Inr \<lparr>colors_soma = replicate N s,
                    colors_axon = replicate N (dict_pop d ''axon'' s),
                    colors_dendrites = replicate N (dict_pop d ''dendrites'' s)\<rparr>)
      | PList cs \<Rightarrow> list_colors N False cs
      | PTuple cs \<Rightarrow> list_colors N True cs
      | PInt _ \<Rightarrow> Inl ValueError
      | PFloat _ \<Rightarrow> Inl ValueError)"

text \<open>Lines 320-324: every entry of \<open>colors\<close> has \<open>N\<close> colours.\<close>

definition check_colors_length :: "nat \<Rightarrow> neuron_colors \<Rightarrow> error + neuron_colors" where
  "check_colors_length N colors =
     (if length (colors_soma colors) = N \<and> length (colors_axon colors) = N
           \<and> length (colors_dendrites colors) = N
      then Inr colors else Inl ValueError)"


subsection \<open>get_neurons: the actors\<close>

text \<open>Sequencing of statements that may raise.\<close>

definition try_then :: "error + 'a \<Rightarrow> ('a \<Rightarrow> error + 'b) \<Rightarrow> error + 'b" where
  "try_then r f = (case r of Inl e \<Rightarrow> Inl e | Inr x \<Rightarrow> f x)"

text \<open>
  A neuron is a file path, an actor, a dict of named parts, a morphapi \<open>Neuron\<close> or
  anything else. A value of the dict is an actor, \<open>None\<close> (\<open>Absent\<close>) or some other
  object.
\<close>

datatype neuron =
    NeuronFile string
  | NeuronActor nat
  | NeuronDict "(string \<times> part) list"
  | NeuronMorph nat
  | NeuronOther

datatype 'a one_or_many = Single 'a | Listed "'a list"

text \<open>
  Lines 350-363. With both dendrite keys present the source assigns to
  \<open>neuron_ctors['dendrites']\<close>, a name that is bound nowhere: NameError.
\<close>

definition neuron_dict_actors :: "(string \<times> part) list \<Rightarrow> error + neuron_actors" where
  "neuron_dict_actors neuron =
     (let s = dict_pop neuron ''soma'' Absent;
          a = dict_pop neuron ''axon'' Absent
      in case (map_of neuron ''apical_dendrites'', map_of neuron ''basal_dendrites'') of
           (None, None) \<Rightarrow>
             Inr \<lparr>soma = s, dendrites = dict_pop neuron ''dendrites'' Absent, axon = a\<rparr>
         | (None, Some basal) \<Rightarrow> Inr \<lparr>soma = s, dendrites = basal, axon = a\<rparr>
         | (Some apical, None) \<Rightarrow> Inr \<lparr>soma = s, dendrites = apical, axon = a\<rparr>
         | (Some apical, Some basal) \<Rightarrow> Inl NameError)"

text \<open>Lines 331-370.\<close>

definition neuron_to_actors :: "brainrender \<Rightarrow> neuron \<Rightarrow> error + neuron_actors" where
  "neuron_to_actors B neuron =
     (case neuron of
        NeuronFile f \<Rightarrow>
          if isfile B f then
            if suffix ''.swc'' f then Inr (actors_with_morphapi_swcfile B f)
            else Inl NotImplementedError
          else Inl ValueError
      | NeuronActor a \<Rightarrow> Inr \<lparr>soma = Actor a, dendrites = Absent, axon = Absent\<rparr>
      | NeuronDict d \<Rightarrow> neuron_dict_actors d
      | NeuronMorph m \<Rightarrow> Inr (actors_with_morphapi_neuron B m)
      | NeuronOther \<Rightarrow> Inl ValueError)"

text \<open>
  Lines 372-376. The message of the ValueError is an f-string that reads
  \<open>act.__type__\<close>, an attribute no object has, so what is raised is AttributeError.
\<close>

definition check_actors :: "neuron_actors \<Rightarrow> error + neuron_actors" where
  "check_actors neuron_actors =
     (if soma neuron_actors = NotActor \<or> dendrites neuron_actors = NotActor
           \<or> axon neuron_actors = NotActor
      then Inl AttributeError else Inr neuron_actors)"

text \<open>Lines 378-381.\<close>

definition display_parts :: "bool \<Rightarrow> bool \<Rightarrow> neuron_actors \<Rightarrow> neuron_actors" where
  "display_parts display_axon display_dendrites neuron_actors =
     neuron_actors
       \<lparr>dendrites := (if display_dendrites then dendrites neuron_actors else Absent),
        axon := (if display_axon then axon neuron_actors else Absent)\<rparr>"

definition render_neuron :: "brainrender \<Rightarrow> bool \<Rightarrow> bool \<Rightarrow> neuron \<Rightarrow> error + neuron_actors" where
  "render_neuron B display_axon display_dendrites neuron =
     try_then (neuron_to_actors B neuron) (\<lambda>neuron_actors.
     try_then (check_actors neuron_actors) (\<lambda>neuron_actors.
       Inr (display_parts display_axon display_dendrites neuron_actors)))"

text \<open>The loop of lines 330-382.\<close>

fun render_neurons ::
  "brainrender \<Rightarrow> bool \<Rightarrow> bool \<Rightarrow> neuron list \<Rightarrow> error + neuron_actors list" where
  "render_neurons B display_axon display_dendrites [] = Inr []"
| "render_neurons B display_axon display_dendrites (neuron # rest) =
     try_then (render_neuron B display_axon display_dendrites neuron) (\<lambda>neuron_actors.
     try_then (render_neurons B display_axon display_dendrites rest) (\<lambda>others.
       Inr (neuron_actors # others)))"

text \<open>
  \<open>part.c(cols[n])\<close>: on \<open>None\<close> the attribute \<open>c\<close> is missing; on an actor the colour
  is stored.
\<close>

definition set_c ::
  "part \<Rightarrow> pyval list \<Rightarrow> nat \<Rightarrow> (nat \<Rightarrow> pyval option) \<Rightarrow> error + (nat \<Rightarrow> pyval option)" where
  "set_c p cols n st =
     (case p of
        Actor a \<Rightarrow> try_then (py_index cols n) (\<lambda>c. Inr (st(a := Some c)))
      | Absent \<Rightarrow> Inl AttributeError
      | NotActor \<Rightarrow> Inl AttributeError)"

text \<open>The loop of lines 385-390, from index \<open>n\<close> on.\<close>

fun color_actors ::
  "neuron_colors \<Rightarrow> nat \<Rightarrow> neuron_actors list \<Rightarrow> (nat \<Rightarrow> pyval option)
     \<Rightarrow> error + (nat \<Rightarrow> pyval option)" where
  "color_actors colors n [] st = Inr st"
| "color_actors colors n (neuron # rest) st =
     try_then (if axon neuron = Absent then Inr st
               else set_c (axon neuron) (colors_axon colors) n st) (\<lambda>st.
     try_then (set_c (soma neuron) (colors_soma colors) n st) (\<lambda>st.
     try_then (if dendrites neuron = Absent then Inr st
               else set_c (dendrites neuron) (colors_dendrites colors) n st) (\<lambda>st.
       color_actors colors (Suc n) rest st)))"

text \<open>
  What \<open>get_neurons\<close> returns is the pair of the value below and \<open>None\<close>
  (lines 392-398).
\<close>

datatype neurons_result =
    NoNeurons
  | OneNeuron neuron_actors
  | ManyNeurons "neuron_actors list"

definition neurons_return :: "neuron_actors list \<Rightarrow> neurons_result \<times> unit option" where
  "neurons_return neurons_actors =
     (case neurons_actors of
        [] \<Rightarrow> (NoNeurons, None)
      | [n] \<Rightarrow> (OneNeuron n, None)
      | _ \<Rightarrow> (ManyNeurons neurons_actors, None))"

text \<open>
  \<open>get_neurons\<close>. The arguments \<open>alpha\<close> and \<open>neurite_radius\<close> are left out: the first
  is not used, the second only reaches morphapi. The last argument is the colours of
  the actors before the call; the result holds them after it.
\<close>

definition get_neurons ::
  "brainrender \<Rightarrow> neuron one_or_many \<Rightarrow> pyval \<Rightarrow> bool \<Rightarrow> bool \<Rightarrow> (nat \<Rightarrow> pyval option)
     \<Rightarrow> error + ((neurons_result \<times> unit option) \<times> (nat \<Rightarrow> pyval option))" where
  "get_neurons B neurons color display_axon display_dendrites st =
     (let neurons = (case neurons of Single n \<Rightarrow> [n] | Listed ns \<Rightarrow> ns);
          N = length neurons
      in try_then (prepare_colors B N color) (\<lambda>colors.
         try_then (check_colors_length N colors) (\<lambda>colors.
         try_then (render_neurons B display_axon display_dendrites neurons) (\<lambda>neurons_actors.
         try_then (color_actors colors 0 neurons_actors st) (\<lambda>st.
           Inr (neurons_return neurons_actors, st))))))"


subsection \<open>The atlas instance\<close>

text \<open>
  What the methods read from \<open>self\<close>: the annotation volume (a numpy array of three
  dimensions), the structure tree of the Allen SDK, the ids of the summary structures
  (\<open>self.structures.id.values\<close>), the tree search and \<open>self.region_acronyms\<close>.
  \<open>get_structures_by_id self i\<close> is \<open>structure_tree.get_structures_by_id([i])[0]\<close>,
  which is \<open>None\<close> for an id the tree does not have;
  \<open>get_structures_by_acronym self a\<close> is \<open>structure_tree.get_structures_by_acronym([a])[0]\<close>,
  with \<open>None\<close> standing for the KeyError of an unknown acronym;
  \<open>get_tree self i anc desc\<close> is the rows of
  \<open>tree_search.get_tree('Structure', i, ancestors=anc, descendants=desc)\<close>.
\<close>

record ndarray3 =
  shape0 :: nat
  shape1 :: nat
  shape2 :: nat
  item :: "nat \<Rightarrow> nat \<Rightarrow> nat \<Rightarrow> int"

record region_structure =
  struct_id :: int
  acronym :: string
  rgb_triplet :: "int list"

record aba =
  annotated_volume :: ndarray3
  get_structures_by_id :: "int \<Rightarrow> region_structure option"
  get_structures_by_acronym :: "string \<Rightarrow> region_structure option"
  structures_id_values :: "int list"
  get_tree :: "int \<Rightarrow> bool \<Rightarrow> bool \<Rightarrow> region_structure list"
  region_acronyms :: "string list option"

text \<open>
  An index \<open>i\<close> into an axis of length \<open>n\<close> of a numpy array: \<open>0 \<le> i < n\<close> is the
  position \<open>i\<close>, \<open>-n \<le> i < 0\<close> counts from the end, anything else raises IndexError.
\<close>

definition np_axis_index :: "nat \<Rightarrow> int \<Rightarrow> nat option" where
  "np_axis_index n i =
     (if 0 \<le> i \<and> i < int n then Some (nat i)
      else if - int n \<le> i \<and> i < 0 then Some (nat (i + int n))
      else None)"

text \<open>
  \<open>volume[v[0], v[1], v[2]]\<close> inside \<open>try\<close> with a bare \<open>except\<close>: \<open>None\<close> is any
  exception (a point with fewer than three coordinates, an index out of range).
\<close>

definition volume_at :: "ndarray3 \<Rightarrow> int list \<Rightarrow> int option" where
  "volume_at vol v =
     (if length v \<le> 2 then None
      else case (np_axis_index (shape0 vol) (v ! 0), np_axis_index (shape1 vol) (v ! 1),
                 np_axis_index (shape2 vol) (v ! 2)) of
             (Some i, Some j, Some k) \<Rightarrow> Some (item vol i j k)
           | _ \<Rightarrow> None)"

datatype region = RegionAcronym string | RegionStructure region_structure

definition get_structure_from_coordinates :: "aba \<Rightarrow> real list \<Rightarrow> bool \<Rightarrow> region option" where
  "get_structure_from_coordinates self p0 just_acronym =
     (case volume_at (annotated_volume self) (voxel p0) of
        None \<Rightarrow> None
      | Some structure_id \<Rightarrow>
          (case get_structures_by_id self structure_id of
             None \<Rightarrow> None
           | Some struct \<Rightarrow>
               if just_acronym then Some (RegionAcronym (acronym struct))
               else Some (RegionStructure struct)))"

text \<open>\<open>get_region_color\<close>, \<open>get_structure_ancestors\<close> and \<open>get_structure_parent\<close> on one acronym.\<close>

definition get_region_color :: "aba \<Rightarrow> string \<Rightarrow> error + pyval" where
  "get_region_color self regions =
     (case get_structures_by_acronym self regions of
        None \<Rightarrow> Inl KeyError
      | Some s \<Rightarrow> Inr (PList (map PInt (rgb_triplet s))))"

definition get_structure_ancestors :: "aba \<Rightarrow> string \<Rightarrow> error + region_structure list" where
  "get_structure_ancestors self regions =
     (case get_structures_by_acronym self regions of
        None \<Rightarrow> Inl KeyError
      | Some s \<Rightarrow> Inr (get_tree self (struct_id s) True False))"

definition get_structure_parent :: "aba \<Rightarrow> string \<Rightarrow> error + region_structure" where
  "get_structure_parent self acronyms =
     (case get_structures_by_acronym self acronyms of
        None \<Rightarrow> Inl KeyError
      | Some s \<Rightarrow>
          if struct_id s \<in> set (structures_id_values self) then Inr s
          else try_then (get_structure_ancestors self (acronym s)) (\<lambda>rows.
                 if rows = [] then Inl IndexError else Inr (last rows)))"

subsection \<open>get_brain_regions: the arguments\<close>

text \<open>
  Lines 129-156 of \<open>get_brain_regions\<close>: the guard on the atlas's region data, the
  list of regions and the check of \<open>colors\<close>. \<open>NoRegionsData\<close> is the early
  \<open>return\<close> of line 132; \<open>Regions rs cs\<close> is the state at line 158, where the loop
  over the regions (mesh download and loading, not modelled) starts.
\<close>

datatype regions_args = NoRegionsData | Regions "string list" pyval

definition get_brain_regions_args ::
  "brainrender \<Rightarrow> aba \<Rightarrow> string one_or_many \<Rightarrow> pyval \<Rightarrow> error + regions_args" where
  "get_brain_regions_args B self brain_regions colors =
     (case region_acronyms self of
        None \<Rightarrow> Inr NoRegionsData
      | Some _ \<Rightarrow>
          (let brain_regions = (case brain_regions of Single r \<Rightarrow> [r] | Listed rs \<Rightarrow> rs)
           in if colors = PNone then Inr (Regions brain_regions PNone)
              else try_then (py_first colors) (\<lambda>c0.
                if type_of c0 = TList \<or> type_of c0 = TTuple then
                  try_then (py_elements colors) (\<lambda>cols.
                    if length cols = length brain_regions then
                      if list_all (check_colors B) cols then Inr (Regions brain_regions colors)
                      else Inl ValueError
                    else Inl ValueError)
                else if check_colors B colors
                  then Inr (Regions brain_regions (PList (replicate (length brain_regions) colors)))
                  else Inl ValueError)))"

subsection \<open>get_tractography\<close>

text \<open>
  A tractography record is a dict; the model keeps the entries the method reads:
  \<open>structure-abbrev\<close>, the \<open>abbreviation\<close> of every entry of \<open>injection-structures\<close>,
  \<open>injection-coordinates\<close>, \<open>injection-volume\<close> and the \<open>coord\<close> of every entry of
  \<open>path\<close>. The keyword arguments are a record; \<open>verbose\<close> only prints and is left out,
  and \<open>VIP_regions\<close> is a list (anything else raises ValueError at line 432).
\<close>

record tract =
  structure_abbrev :: string
  injection_structures :: "string list"
  injection_coordinates :: "real list"
  injection_volume :: real
  path_coords :: "real list list"

datatype tractography_arg = TractDict tract | TractList "tract list" | TractOther

datatype extract_arg = ExtractBool bool | ExtractList "string list"

record tractography_kwargs =
  color_arg :: pyval
  color_by :: string
  others_alpha :: real
  VIP_regions :: "string list"
  VIP_color :: pyval
  others_color :: pyval
  include_all_inj_regions :: bool
  extract_region_from_inj_coords :: extract_arg
  display_injection_volume :: bool

text \<open>\<open>Sphere pos c r alpha\<close> and \<open>Tube points r c alpha res\<close> of vtkplotter's shapes.\<close>

datatype shape =
    Sphere "real list" pyval real real
  | Tube "real list list" real pyval real int

text \<open>Lines 421-429; \<open>tractography[0]\<close> of an empty list raises IndexError.\<close>

definition tractography_list :: "tractography_arg \<Rightarrow> error + tract list" where
  "tractography_list tractography =
     (case tractography of
        TractDict t \<Rightarrow> Inr [t]
      | TractOther \<Rightarrow> Inl ValueError
      | TractList [] \<Rightarrow> Inl IndexError
      | TractList (t # ts) \<Rightarrow> Inr (t # ts))"

text \<open>A list comprehension whose elements may raise.\<close>

fun sequence_results :: "(error + 'a) list \<Rightarrow> error + 'a list" where
  "sequence_results [] = Inr []"
| "sequence_results (r # rs) =
     try_then r (\<lambda>x. try_then (sequence_results rs) (\<lambda>xs. Inr (x # xs)))"

text \<open>Lines 434-472: the list \<open>COLORS\<close>.\<close>

definition tractography_colors ::
  "brainrender \<Rightarrow> aba \<Rightarrow> tractography_kwargs \<Rightarrow> tract list \<Rightarrow> error + pyval list" where
  "tractography_colors B self kw tractography =
     (if color_by kw = ''manual'' then
        (case color_arg kw of
           PNone \<Rightarrow> Inr (replicate (length tractography) (TRACT_DEFAULT_COLOR B))
         | PList cols \<Rightarrow>
             if length cols = length tractography then
               if list_all (check_colors B) cols then Inr cols else Inl ValueError
             else Inl ValueError
         | _ \<Rightarrow>
             if check_colors B (color_arg kw)
             then Inr (replicate (length tractography) (color_arg kw))
             else Inl ValueError)
      else if color_by kw = ''region'' then
        sequence_results (map (\<lambda>t. get_region_color self (structure_abbrev t)) tractography)
      else if color_by kw = ''target_region'' then
        (if VIP_color kw = PNone then
           sequence_results
             (map (\<lambda>t. if structure_abbrev t \<in> set (VIP_regions kw)
                        then get_region_color self (structure_abbrev t)
                        else Inr (others_color kw)) tractography)
         else if check_colors B (VIP_color kw) \<and> check_colors B (others_color kw) then
           Inr (map (\<lambda>t. if (if include_all_inj_regions kw
                              then is_any_item_in_list B (injection_structures t) (VIP_regions kw)
                              else structure_abbrev t \<in> set (VIP_regions kw))
                          then VIP_color kw else others_color kw) tractography)
         else Inl ValueError)
      else Inl ValueError)"

text \<open>Lines 481-497: \<open>inj_structures\<close> and the opacity \<open>alpha\<close> of a record.\<close>

definition inj_structures_of ::
  "aba \<Rightarrow> tractography_kwargs \<Rightarrow> tract \<Rightarrow> error + string list" where
  "inj_structures_of self kw t =
     (if include_all_inj_regions kw then Inr (injection_structures t)
      else try_then (get_structure_parent self (structure_abbrev t)) (\<lambda>s. Inr [acronym s]))"

definition resolved_alpha ::
  "brainrender \<Rightarrow> aba \<Rightarrow> tractography_kwargs \<Rightarrow> tract \<Rightarrow> error + real" where
  "resolved_alpha B self kw t =
     try_then (inj_structures_of self kw t) (\<lambda>inj_structures.
       if color_by kw = ''target_region''
            \<and> \<not> is_any_item_in_list B inj_structures (VIP_regions kw)
       then Inr (others_alpha kw) else Inr (TRACTO_ALPHA B))"

text \<open>
  Lines 500-514: whether the record is kept when the region is taken from the injection
  coordinates. A non-empty list and \<open>True\<close> are true. Every exception inside the
  \<open>try\<close> is raised again as ValueError.
\<close>

definition keep_by_inj_coords ::
  "brainrender \<Rightarrow> aba \<Rightarrow> tractography_kwargs \<Rightarrow> tract \<Rightarrow> error + bool" where
  "keep_by_inj_coords B self kw t =
     (if extract_region_from_inj_coords kw = ExtractBool False
          \<or> extract_region_from_inj_coords kw = ExtractList []
      then Inr True
      else case get_structure_from_coordinates self (injection_coordinates t) False of
             None \<Rightarrow> Inr False
           | Some (RegionAcronym _) \<Rightarrow> Inl ValueError
           | Some (RegionStructure region) \<Rightarrow>
               (case get_structure_parent self (acronym region) of
                  Inl _ \<Rightarrow> Inl ValueError
                | Inr parent \<Rightarrow>
                    (case extract_region_from_inj_coords kw of
                       ExtractBool _ \<Rightarrow> Inr True
                     | ExtractList allowed \<Rightarrow>
                         Inr (is_any_item_in_list B [acronym parent] allowed))))"

text \<open>Lines 516-522: the sphere of the injection site and the tube of the path.\<close>

definition tract_actors ::
  "brainrender \<Rightarrow> tractography_kwargs \<Rightarrow> tract \<Rightarrow> pyval \<Rightarrow> real \<Rightarrow> shape list" where
  "tract_actors B kw t color alpha =
     (if display_injection_volume kw
      then [Sphere (injection_coordinates t) color
              (INJECTION_VOLUME_SIZE B * injection_volume t) (TRACTO_ALPHA B)]
      else [])
     @ [Tube (path_coords t) (TRACTO_RADIUS B) color alpha (TRACTO_RES B)]"

text \<open>One pass of the loop body: what the record appends to \<open>actors\<close>.\<close>

definition tractography_step ::
  "brainrender \<Rightarrow> aba \<Rightarrow> tractography_kwargs \<Rightarrow> tract \<Rightarrow> pyval \<Rightarrow> error + shape list" where
  "tractography_step B self kw t color =
     try_then (resolved_alpha B self kw t) (\<lambda>alpha.
       if alpha = 0 then Inr []
       else try_then (keep_by_inj_coords B self kw t) (\<lambda>keep.
              if keep then Inr (tract_actors B kw t color alpha) else Inr []))"

fun tractography_loop ::
  "brainrender \<Rightarrow> aba \<Rightarrow> tractography_kwargs \<Rightarrow> (tract \<times> pyval) list \<Rightarrow> shape list
     \<Rightarrow> error + shape list" where
  "tractography_loop B self kw [] actors = Inr actors"
| "tractography_loop B self kw ((t, color) # rest) actors =
     try_then (tractography_step B self kw t color) (\<lambda>new.
       tractography_loop B self kw rest (actors @ new))"

definition get_tractography ::
  "brainrender \<Rightarrow> aba \<Rightarrow> tractography_arg \<Rightarrow> tractography_kwargs \<Rightarrow> error + shape list" where
  "get_tractography B self tractography kw =
     try_then (tractography_list tractography) (\<lambda>tractography.
     try_then (tractography_colors B self kw tractography) (\<lambda>COLORS.
       tractography_loop B self kw (zip tractography COLORS) []))"


subsection \<open>A small atlas and module for concrete runs\<close>

definition example_brainrender :: brainrender where
  "example_brainrender =
     \<lparr>get_random_colors = (\<lambda>n. replicate n (PStr ''salmon'')),
      mapscales_cmaps = [''viridis''],
      colorMap = (\<lambda>n name vmin vmax. PTuple [PFloat (real n), PFloat 0, PFloat 0]),
      getColor = (\<lambda>name. PStr name),
      check_colors = (\<lambda>c. True),
      isfile = (\<lambda>f. False),
      actors_with_morphapi_swcfile = (\<lambda>f. \<lparr>soma = Absent, dendrites = Absent, axon = Absent\<rparr>),
      actors_with_morphapi_neuron = (\<lambda>m. \<lparr>soma = Actor m, dendrites = Absent, axon = Absent\<rparr>),
      is_any_item_in_list = (\<lambda>L1 L2. list_ex (\<lambda>i. i \<in> set L2) L1),
      TRACT_DEFAULT_COLOR = PStr ''salmon'',
      TRACTO_ALPHA = 1,
      TRACTO_RADIUS = 30,
      TRACTO_RES = 12,
      INJECTION_VOLUME_SIZE = 120\<rparr>"

definition VISp :: region_structure where
  "VISp = \<lparr>struct_id = 385, acronym = ''VISp'', rgb_triplet = [8, 133, 140]\<rparr>"

definition MOs :: region_structure where
  "MOs = \<lparr>struct_id = 993, acronym = ''MOs'', rgb_triplet = [31, 157, 90]\<rparr>"

text \<open>A volume of 2 x 2 x 2 voxels; the voxel (1, 0, 0) lies in VISp, the others in no structure.\<close>

definition example_atlas :: aba where
  "example_atlas =
     \<lparr>annotated_volume =
        \<lparr>shape0 = 2, shape1 = 2, shape2 = 2,
         item = (\<lambda>i j k. if i = 1 \<and> j = 0 \<and> k = 0 then 385 else 0)\<rparr>,
      get_structures_by_id = (\<lambda>i. if i = 385 then Some VISp else if i = 993 then Some MOs else None),
      get_structures_by_acronym =
        (\<lambda>a. if a = ''VISp'' then Some VISp else if a = ''MOs'' then Some MOs else None),
      structures_id_values = [385, 993],
      get_tree = (\<lambda>i anc desc. []),
      region_acronyms = Some [''MOs'', ''VISp'']\<rparr>"

definition example_tract :: "string \<Rightarrow> real \<Rightarrow> tract" where
  "example_tract abbrev z =
     \<lparr>structure_abbrev = abbrev, injection_structures = [abbrev],
      injection_coordinates = [25, 0, z], injection_volume = 1 / 10,
      path_coords = [[25, 0, z], [30, 5, z]]\<rparr>"

definition example_kwargs :: tractography_kwargs where
  "example_kwargs =
     \<lparr>color_arg = PNone, color_by = ''target_region'', others_alpha = 0,
      VIP_regions = [''VISp''], VIP_color = PStr ''red'', others_color = PStr ''white'',
      include_all_inj_regions = False, extract_region_from_inj_coords = ExtractBool False,
      display_injection_volume = True\<rparr>"


definition manual_kwargs :: tractography_kwargs where
  "manual_kwargs = example_kwargs\<lparr>color_arg := PList [PStr ''red''], color_by := ''manual''\<rparr>"

section \<open>Properties\<close>

subsection \<open>Auxiliary facts\<close>

lemma root_midpoint_2: "root_midpoint ! 2 = 11377 / 2"
  by (simp add: root_midpoint_def np_mean_def)

lemma try_then_Inr:
  "try_then r f = Inr y \<longleftrightarrow> (\<exists>x. r = Inr x \<and> f x = Inr y)"
  by (cases r) (simp_all add: try_then_def)

lemma example_brainrender_fields:
  "is_any_item_in_list example_brainrender L1 L2 = list_ex (\<lambda>i. i \<in> set L2) L1"
  "TRACTO_ALPHA example_brainrender = 1"
  "TRACTO_RADIUS example_brainrender = 30"
  "TRACTO_RES example_brainrender = 12"
  "INJECTION_VOLUME_SIZE example_brainrender = 120"
  "check_colors example_brainrender c = True"
  "getColor example_brainrender name = PStr name"
  "mapscales_cmaps example_brainrender = [''viridis'']"
  by (simp_all add: example_brainrender_def)

lemma example_kwargs_fields:
  "color_arg example_kwargs = PNone"
  "color_by example_kwargs = ''target_region''"
  "others_alpha example_kwargs = 0"
  "VIP_regions example_kwargs = [''VISp'']"
  "VIP_color example_kwargs = PStr ''red''"
  "others_color example_kwargs = PStr ''white''"
  "include_all_inj_regions example_kwargs = False"
  "extract_region_from_inj_coords example_kwargs = ExtractBool False"
  "display_injection_volume example_kwargs = True"
  by (simp_all add: example_kwargs_def)

lemma example_atlas_fields:
  "get_structures_by_acronym example_atlas ''VISp'' = Some VISp"
  "get_structures_by_acronym example_atlas ''MOs'' = Some MOs"
  "structures_id_values example_atlas = [385, 993]"
  "region_acronyms example_atlas = Some [''MOs'', ''VISp'']"
  by (simp_all add: example_atlas_def)

lemma example_tract_fields:
  "structure_abbrev (example_tract a z) = a"
  "injection_structures (example_tract a z) = [a]"
  "injection_coordinates (example_tract a z) = [25, 0, z]"
  "injection_volume (example_tract a z) = 1 / 10"
  "path_coords (example_tract a z) = [[25, 0, z], [30, 5, z]]"
  by (simp_all add: example_tract_def)

subsection \<open>Float rounding\<close>

lemma np_round_of_int: "np_round (of_int n) = n"
  by (simp add: np_round_def)

lemma powr_neg_nat: "(2::real) powr (- real m) = 1 / 2 ^ m"
  by (simp add: powr_minus powr_realpow inverse_eq_divide)

lemma float_round_exponent:
  assumes "2 powr of_int e \<le> \<bar>x\<bar>" "\<bar>x\<bar> < 2 powr (of_int e + 1)"
  shows "float_round x = of_int (np_round (x / 2 powr (of_int e - 52))) * 2 powr (of_int e - 52)"
proof -
  have pos: "0 < \<bar>x\<bar>"
    using assms(1) by (smt (verit) powr_gt_zero)
  then have "\<lfloor>log 2 \<bar>x\<bar>\<rfloor> = e"
    using assms by (simp add: floor_log_eq_powr_iff)
  with pos show ?thesis
    by (simp add: float_round_def Let_def)
qed

text \<open>
  The rounding of a number between \<open>2^n\<close> and \<open>2^(n+1)\<close>, and of one between
  \<open>2^-n\<close> and \<open>2^(1-n)\<close>.
\<close>

lemma float_round_large:
  assumes "2 ^ n \<le> \<bar>x\<bar>" "\<bar>x\<bar> < 2 ^ Suc n" "n \<le> 52"
  shows "float_round x = of_int (np_round (x * 2 ^ (52 - n))) / 2 ^ (52 - n)"
proof -
  have a: "2 powr of_int (int n) \<le> \<bar>x\<bar>" "\<bar>x\<bar> < 2 powr (of_int (int n) + 1)"
    using assms(1,2) by (simp_all add: powr_realpow powr_add)
  have "real_of_int (int n) - 52 = - real (52 - n)"
    using assms(3) by simp
  then have u: "2 powr (real_of_int (int n) - 52) = 1 / 2 ^ (52 - n)"
    by (simp only: powr_neg_nat)
  show ?thesis
    unfolding float_round_exponent [OF a] u by simp
qed

lemma float_round_small:
  assumes "1 / 2 ^ n \<le> \<bar>x\<bar>" "\<bar>x\<bar> < 2 / 2 ^ n"
  shows "float_round x = of_int (np_round (x * 2 ^ (52 + n))) / 2 ^ (52 + n)"
proof -
  have "real_of_int (- int n) = - real n"
    by simp
  then have p: "2 powr real_of_int (- int n) = 1 / 2 ^ n"
    by (simp only: powr_neg_nat)
  have a: "2 powr of_int (- int n) \<le> \<bar>x\<bar>" "\<bar>x\<bar> < 2 powr (of_int (- int n) + 1)"
    using assms by (simp_all add: powr_add p del: of_int_minus)
  have "real_of_int (- int n) - 52 = - real (52 + n)"
    by simp
  then have u: "2 powr (real_of_int (- int n) - 52) = 1 / 2 ^ (52 + n)"
    by (simp only: powr_neg_nat)
  show ?thesis
    unfolding float_round_exponent [OF a] u by simp
qed

text \<open>A multiple of one half below \<open>2^52\<close> in magnitude is a double: rounding keeps it.\<close>

lemma float_round_half_int:
  assumes "\<bar>k\<bar> < 2 ^ 53"
  shows "float_round (of_int k / 2) = of_int k / 2"
proof (cases "k = 0")
  case True
  then show ?thesis by (simp add: float_round_def)
next
  case False
  define x :: real where "x = of_int k / 2"
  define e where "e = \<lfloor>log 2 \<bar>x\<bar>\<rfloor>"
  have xpos: "0 < \<bar>x\<bar>"
    using False by (simp add: x_def)
  have "\<bar>x\<bar> < 2 ^ 52"
  proof -
    have "real_of_int \<bar>k\<bar> < 2 ^ 53"
      using assms by (metis of_int_less_numeral_power_cancel_iff)
    then show ?thesis by (simp add: x_def)
  qed
  then have "\<bar>x\<bar> < 2 powr 52"
    by simp
  then have "log 2 \<bar>x\<bar> < 52"
    using xpos by (simp add: log_less_iff)
  then have e52: "e \<le> 51"
    unfolding e_def by linarith
  define j where "j = nat (51 - e)"
  have ej: "real_of_int e - 52 = - real (Suc j)"
    using e52 by (simp add: j_def)
  have u: "2 powr (real_of_int e - 52) = 1 / 2 ^ Suc j"
    unfolding ej by (rule powr_neg_nat)
  have "x / (1 / 2 ^ Suc j) = of_int (k * 2 ^ j)"
    by (simp add: x_def)
  then have "np_round (x / (1 / 2 ^ Suc j)) = k * 2 ^ j"
    by (simp only: np_round_of_int)
  then have "float_round x = of_int (k * 2 ^ j) * (1 / 2 ^ Suc j)"
    using xpos by (simp add: float_round_def Let_def e_def [symmetric] u)
  then show ?thesis
    by (simp add: x_def)
qed

subsection \<open>Hemispheres and mirroring\<close>

text \<open>
  On a third coordinate that is a multiple of one half, of magnitude at most \<open>2^51\<close>,
  both subtractions are exact and the mirror image is the reflection about 5688.5.
\<close>

lemma mirror_half_int:
  assumes "2 < length point" "point ! 2 = of_int k / 2" "\<bar>k\<bar> \<le> 2 ^ 52"
  shows "mirror_point_across_hemispheres point = Inr (point[2 := of_int (22754 - k) / 2])"
proof -
  have d: "point ! 2 - 11377 / 2 = of_int (k - 11377) / 2"
    by (simp add: assms(2) diff_divide_distrib)
  have "\<bar>k - 11377\<bar> < 2 ^ 53"
    using assms(3) by simp
  then have delta: "float_sub (point ! 2) (11377 / 2) = of_int (k - 11377) / 2"
    unfolding float_sub_def d by (rule float_round_half_int)
  have r: "11377 / 2 - real_of_int (k - 11377) / 2 = of_int (22754 - k) / 2"
    by (simp add: diff_divide_distrib)
  have "\<bar>22754 - k\<bar> < 2 ^ 53"
    using assms(3) by simp
  then have step: "float_sub (11377 / 2) (of_int (k - 11377) / 2) = of_int (22754 - k) / 2"
    unfolding float_sub_def r by (rule float_round_half_int)
  show ?thesis
    unfolding mirror_point_across_hemispheres_def Let_def root_midpoint_2 delta step
    using assms(1) by simp
qed

lemma mirror_third:
  "mirror_point_across_hemispheres [x, y, z]
     = Inr [x, y, float_sub (11377 / 2) (float_sub z (11377 / 2))]"
  by (simp add: mirror_point_across_hemispheres_def Let_def root_midpoint_2)

lemma mirror_3000: "mirror_point_across_hemispheres [x, y, 3000] = Inr [x, y, 8377]"
  using mirror_half_int [of "[x, y, 3000]" 6000] by simp

lemma mirror_8377: "mirror_point_across_hemispheres [x, y, 8377] = Inr [x, y, 3000]"
  using mirror_half_int [of "[x, y, 8377]" 16754] by simp

text \<open>
  C8, as amended. Mirroring a point leaves every coordinate but the third as it is and
  sets the third to midline - (z - midline), each of the two subtractions rounded to
  the nearest double. When the third coordinate is a multiple of one half of magnitude
  at most \<open>2^51\<close> (any whole number of microns, for one), both subtractions are exact:
  the result is the reflection of the coordinate about the midline, and mirroring the
  mirrored point gives the original point back. A point has at least three
  coordinates (on a shorter list \<open>point[2]\<close> raises IndexError).
\<close>

theorem mirror_point_round_trip:
  assumes "2 < length point"
  shows "\<exists>p'. mirror_point_across_hemispheres point = Inr p'
           \<and> length p' = length point
           \<and> (\<forall>i. i \<noteq> 2 \<longrightarrow> p' ! i = point ! i)
           \<and> p' ! 2 = float_sub (root_midpoint ! 2) (float_sub (point ! 2) (root_midpoint ! 2))
           \<and> (\<forall>k. point ! 2 = of_int k / 2 \<and> \<bar>k\<bar> \<le> 2 ^ 52 \<longrightarrow>
                 p' ! 2 - root_midpoint ! 2 = - (point ! 2 - root_midpoint ! 2)
               \<and> mirror_point_across_hemispheres p' = Inr point)"
proof -
  define p' where
    "p' = point[2 := float_sub (root_midpoint ! 2) (float_sub (point ! 2) (root_midpoint ! 2))]"
  have m: "mirror_point_across_hemispheres point = Inr p'"
    using assms by (simp add: mirror_point_across_hemispheres_def Let_def p'_def)
  have exact: "p' ! 2 - root_midpoint ! 2 = - (point ! 2 - root_midpoint ! 2)
               \<and> mirror_point_across_hemispheres p' = Inr point"
    if k: "point ! 2 = of_int k / 2" "\<bar>k\<bar> \<le> 2 ^ 52" for k
  proof -
    from mirror_half_int [OF assms k] m have p: "p' = point[2 := of_int (22754 - k) / 2]"
      by simp
    have d: "p' ! 2 - 11377 / 2 = of_int (11377 - k) / 2"
      using assms by (simp add: p diff_divide_distrib)
    have "\<bar>11377 - k\<bar> < 2 ^ 53"
      using k(2) by simp
    then have delta: "float_sub (p' ! 2) (11377 / 2) = of_int (11377 - k) / 2"
      unfolding float_sub_def d by (rule float_round_half_int)
    have r: "11377 / 2 - real_of_int (11377 - k) / 2 = of_int k / 2"
      by (simp add: diff_divide_distrib)
    have "\<bar>k\<bar> < 2 ^ 53"
      using k(2) by simp
    then have step: "float_sub (11377 / 2) (of_int (11377 - k) / 2) = of_int k / 2"
      unfolding float_sub_def r by (rule float_round_half_int)
    have again: "mirror_point_across_hemispheres p' = Inr point"
      unfolding mirror_point_across_hemispheres_def Let_def root_midpoint_2 delta step
      using assms k(1) by (simp add: p list_update_same_conv)
    have "p' ! 2 - root_midpoint ! 2 = - (point ! 2 - root_midpoint ! 2)"
      using assms by (simp add: p root_midpoint_2 k(1) diff_divide_distrib)
    with again show ?thesis
      by simp
  qed
  have "length p' = length point" "\<forall>i. i \<noteq> 2 \<longrightarrow> p' ! i = point ! i"
    "p' ! 2 = float_sub (root_midpoint ! 2) (float_sub (point ! 2) (root_midpoint ! 2))"
    using assms by (simp_all add: p'_def)
  with m exact show ?thesis
    by blast
qed

theorem mirror_point_round_trip_witness:
  "2 < length [1000, 2000, 3000 :: real]
     \<and> [1000, 2000, 3000 :: real] ! 2 = of_int 6000 / 2 \<and> \<bar>6000 :: int\<bar> \<le> 2 ^ 52
     \<and> mirror_point_across_hemispheres [1000, 2000, 3000] = Inr [1000, 2000, 8377]
     \<and> mirror_point_across_hemispheres [1000, 2000, 8377] = Inr [1000, 2000, 3000]"
  using mirror_point_round_trip [of "[1000, 2000, 3000]"]
  by (simp add: mirror_3000 mirror_8377)

text \<open>
  The double written 0.1 is 3602879701896397 / 2^55. Its mirror image is the double
  6254516919022387 / 2^39 (printed 11376.9), and the mirror image of that is
  54975581389 / 2^39 (printed 0.1000000000003638), not the double the round trip
  started from.
\<close>

theorem mirror_round_trip_inexact_counterexample:
  "mirror_point_across_hemispheres [0, 0, 3602879701896397 / 36028797018963968]
     = Inr [0, 0, 6254516919022387 / 549755813888]
   \<and> mirror_point_across_hemispheres [0, 0, 6254516919022387 / 549755813888]
     = Inr [0, 0, 54975581389 / 549755813888]
   \<and> (54975581389 / 549755813888 :: real) \<noteq> 3602879701896397 / 36028797018963968"
proof -
  have 1: "float_round (3602879701896397 / 36028797018963968 - 11377 / 2)
      = - 3127230971720499 / 549755813888"
    by (subst float_round_large [of 12]) (simp_all add: np_round_def Let_def)
  have 2: "float_round (11377 / 2 - (- 3127230971720499 / 549755813888))
      = 6254516919022387 / 549755813888"
    by (subst float_round_large [of 13]) (simp_all add: np_round_def Let_def)
  have 3: "float_round (6254516919022387 / 549755813888 - 11377 / 2)
      = 3127230971720499 / 549755813888"
    by (subst float_round_large [of 12]) (simp_all add: np_round_def Let_def)
  have 4: "float_round (11377 / 2 - 3127230971720499 / 549755813888)
      = 54975581389 / 549755813888"
    by (subst float_round_small [of 4]) (simp_all add: np_round_def Let_def)
  have a: "mirror_point_across_hemispheres [0, 0, 3602879701896397 / 36028797018963968]
     = Inr [0, 0, 6254516919022387 / 549755813888]"
    unfolding mirror_third float_sub_def by (simp only: 1 2)
  have b: "mirror_point_across_hemispheres [0, 0, 6254516919022387 / 549755813888]
     = Inr [0, 0, 54975581389 / 549755813888]"
    unfolding mirror_third float_sub_def by (simp only: 3 4)
  from a b show ?thesis
    by simp
qed




text \<open>
  Off the midline \<open>get_hemisphere_from_point\<close> and \<open>get_hemispere_from_point\<close> give
  the same answer: "left" for both strictly below the midline, "right" for both
  strictly above it (and both raise IndexError on a point with fewer than three
  coordinates).
\<close>

lemma hemisphere_operations_agree_off_midline:
  "(get_hemisphere_from_point p = get_hemispere_from_point p)
       = (length p \<le> 2 \<or> p ! 2 \<noteq> root_midpoint ! 2)
     \<and> (2 < length p \<longrightarrow> p ! 2 < root_midpoint ! 2 \<longrightarrow>
           get_hemisphere_from_point p = Inr ''left''
         \<and> get_hemispere_from_point p = Inr ''left'')
     \<and> (2 < length p \<longrightarrow> root_midpoint ! 2 < p ! 2 \<longrightarrow>
           get_hemisphere_from_point p = Inr ''right''
         \<and> get_hemispere_from_point p = Inr ''right'')"
  by (auto simp: get_hemisphere_from_point_def get_hemispere_from_point_def)

text \<open>
  C10. On the point (0, 0, 5688.5), which lies exactly on the midline,
  \<open>get_hemisphere_from_point\<close> answers "right" and \<open>get_hemispere_from_point\<close> answers
  "left": the two operations of one purpose do not return the same classification.
\<close>

theorem hemisphere_operations_differ_on_midline:
  "get_hemisphere_from_point [0, 0, 5688.5] = Inr ''right''
     \<and> get_hemispere_from_point [0, 0, 5688.5] = Inr ''left''"
  by (simp add: get_hemisphere_from_point_def get_hemispere_from_point_def root_midpoint_2)

subsection \<open>Coordinates and voxels\<close>







lemma np_axis_index_out_of_range:
  "i < - int n \<or> int n \<le> i \<Longrightarrow> np_axis_index n i = None"
  by (auto simp: np_axis_index_def)

lemma volume_at_None:
  "np_axis_index (shape0 vol) (v ! 0) = None \<or> np_axis_index (shape1 vol) (v ! 1) = None
     \<or> np_axis_index (shape2 vol) (v ! 2) = None \<Longrightarrow> volume_at vol v = None"
  by (cases "np_axis_index (shape0 vol) (v ! 0)"; cases "np_axis_index (shape1 vol) (v ! 1)";
      cases "np_axis_index (shape2 vol) (v ! 2)") (simp_all add: volume_at_def)

text \<open>
  A voxel index at or beyond the length of its axis, or below minus that length, is
  answered with \<open>None\<close>.
\<close>

lemma lookup_far_out_of_range:
  assumes "voxel p0 ! 0 < - int (shape0 (annotated_volume self))
       \<or> int (shape0 (annotated_volume self)) \<le> voxel p0 ! 0
       \<or> voxel p0 ! 1 < - int (shape1 (annotated_volume self))
       \<or> int (shape1 (annotated_volume self)) \<le> voxel p0 ! 1
       \<or> voxel p0 ! 2 < - int (shape2 (annotated_volume self))
       \<or> int (shape2 (annotated_volume self)) \<le> voxel p0 ! 2"
  shows "get_structure_from_coordinates self p0 just_acronym = None"
proof -
  from assms have "np_axis_index (shape0 (annotated_volume self)) (voxel p0 ! 0) = None
     \<or> np_axis_index (shape1 (annotated_volume self)) (voxel p0 ! 1) = None
     \<or> np_axis_index (shape2 (annotated_volume self)) (voxel p0 ! 2) = None"
    by (elim disjE) (simp_all add: np_axis_index_out_of_range)
  then have "volume_at (annotated_volume self) (voxel p0) = None"
    by (rule volume_at_None)
  then show ?thesis
    by (simp add: get_structure_from_coordinates_def)
qed

text \<open>
  C3. The point (-25, 0, 0) has the voxel index (-1, 0, 0), which lies outside a volume
  of 2 x 2 x 2 voxels; the lookup does not return \<open>None\<close> but the structure of the
  voxel (1, 0, 0), the one the point (25, 0, 0) lies in, since a negative index into a
  numpy array counts from the end of the axis. An index of 2 or more is answered
  with \<open>None\<close>.
\<close>

theorem negative_voxel_index_wraps_around:
  "voxel [- 25, 0, 0] = [- 1, 0, 0]
     \<and> get_structure_from_coordinates example_atlas [- 25, 0, 0] True
         = Some (RegionAcronym ''VISp'')
     \<and> get_structure_from_coordinates example_atlas [25, 0, 0] True
         = Some (RegionAcronym ''VISp'')
     \<and> get_structure_from_coordinates example_atlas [50, 0, 0] True = None"
  by (simp add: get_structure_from_coordinates_def volume_at_def voxel_def np_round_def
      resolution_def np_axis_index_def example_atlas_def VISp_def Let_def floor_minus)

subsection \<open>get_neurons\<close>

lemma render_neurons_nth:
  "render_neurons B da dd ns = Inr rs \<Longrightarrow>
     length rs = length ns \<and> (\<forall>i<length ns. render_neuron B da dd (ns ! i) = Inr (rs ! i))"
proof (induction ns arbitrary: rs)
  case Nil
  then show ?case by simp
next
  case (Cons n ns)
  from Cons.prems obtain r rs' where
    r: "render_neuron B da dd n = Inr r" and rs': "render_neurons B da dd ns = Inr rs'"
    and eq: "rs = r # rs'"
    by (auto simp: try_then_Inr)
  from Cons.IH [OF rs'] r eq show ?case
    by (auto simp: nth_Cons split: nat.splits)
qed

lemma set_c_Inr:
  "set_c p cols n st = Inr st' \<Longrightarrow> \<exists>a c. p = Actor a \<and> st' = st(a := Some c)"
  by (cases p) (auto simp: set_c_def try_then_Inr)

lemma color_actors_colored:
  "color_actors colors n rs st = Inr st' \<Longrightarrow>
     (\<forall>a. st a \<noteq> None \<longrightarrow> st' a \<noteq> None) \<and>
     (\<forall>r\<in>set rs. \<exists>a. soma r = Actor a \<and> st' a \<noteq> None)"
proof (induction rs arbitrary: n st)
  case Nil
  then show ?case by simp
next
  case (Cons r rs)
  from Cons.prems obtain st1 st2 st3 where
    s1: "(if axon r = Absent then Inr st else set_c (axon r) (colors_axon colors) n st) = Inr st1"
    and s2: "set_c (soma r) (colors_soma colors) n st1 = Inr st2"
    and s3: "(if dendrites r = Absent then Inr st2
              else set_c (dendrites r) (colors_dendrites colors) n st2) = Inr st3"
    and rest: "color_actors colors (Suc n) rs st3 = Inr st'"
    by (auto simp: try_then_Inr)
  have m1: "\<forall>a. st a \<noteq> None \<longrightarrow> st1 a \<noteq> None"
    using s1 by (auto split: if_splits dest!: set_c_Inr)
  from s2 obtain a c where a: "soma r = Actor a" "st2 = st1(a := Some c)"
    by (auto dest!: set_c_Inr)
  have m2: "\<forall>b. st1 b \<noteq> None \<longrightarrow> st2 b \<noteq> None" "st2 a \<noteq> None"
    using a by auto
  have m3: "\<forall>b. st2 b \<noteq> None \<longrightarrow> st3 b \<noteq> None"
    using s3 by (auto split: if_splits dest!: set_c_Inr)
  from Cons.IH [OF rest] m1 m2 m3 a show ?case
    by auto
qed

lemma render_actor_neurons:
  "(\<forall>n\<in>set ns. \<exists>a. n = NeuronActor a) \<Longrightarrow>
     \<exists>rs. render_neurons B da dd ns = Inr rs \<and> length rs = length ns
        \<and> (\<forall>r\<in>set rs. (\<exists>a. soma r = Actor a) \<and> axon r = Absent \<and> dendrites r = Absent)"
proof (induction ns)
  case Nil
  then show ?case by simp
next
  case (Cons n ns)
  from Cons.prems obtain a where n: "n = NeuronActor a"
    by auto
  have r: "render_neuron B da dd n = Inr \<lparr>soma = Actor a, dendrites = Absent, axon = Absent\<rparr>"
    by (simp add: n render_neuron_def neuron_to_actors_def check_actors_def display_parts_def
        try_then_def)
  from Cons obtain rs where "render_neurons B da dd ns = Inr rs" "length rs = length ns"
    "\<forall>r\<in>set rs. (\<exists>a. soma r = Actor a) \<and> axon r = Absent \<and> dendrites r = Absent"
    by auto
  with r show ?case
    by (simp add: try_then_def)
qed

lemma color_actors_succeeds:
  "(\<forall>r\<in>set rs. (\<exists>a. soma r = Actor a) \<and> axon r = Absent \<and> dendrites r = Absent) \<Longrightarrow>
   n + length rs \<le> length (colors_soma colors) \<Longrightarrow>
   \<exists>st'. color_actors colors n rs st = Inr st'"
proof (induction rs arbitrary: n st)
  case Nil
  then show ?case by simp
next
  case (Cons r rs)
  from Cons.prems obtain a where r: "soma r = Actor a" "axon r = Absent" "dendrites r = Absent"
    by auto
  from Cons.prems have n: "n < length (colors_soma colors)"
    by simp
  have "\<exists>st'. color_actors colors (Suc n) rs (st(a := Some (colors_soma colors ! n))) = Inr st'"
    using Cons.prems by (intro Cons.IH) auto
  with r n show ?case
    by (simp add: try_then_def set_c_def py_index_def)
qed

lemma get_neurons_of_actors_returns:
  assumes "\<forall>n\<in>set ns. \<exists>a. n = NeuronActor a"
  shows "\<exists>res st'. get_neurons B (Listed ns) (PStr name) da dd st = Inr ((res, None), st')"
proof -
  from render_actor_neurons [OF assms] obtain rs where
    rs: "render_neurons B da dd ns = Inr rs" "length rs = length ns"
    "\<forall>r\<in>set rs. (\<exists>a. soma r = Actor a) \<and> axon r = Absent \<and> dendrites r = Absent"
    by blast
  define cols where "cols = (if name \<in> set (mapscales_cmaps B)
                  then map (\<lambda>n. colorMap B n name (- 2) (int (length ns) + 2)) [0..<length ns]
                  else replicate (length ns) (getColor B name))"
  define colors where "colors = \<lparr>colors_soma = cols, colors_axon = cols, colors_dendrites = cols\<rparr>"
  have len: "length cols = length ns"
    by (simp add: cols_def)
  have pc: "prepare_colors B (length ns) (PStr name) = Inr colors"
    by (simp add: prepare_colors_def colors_def cols_def Let_def)
  have cl: "check_colors_length (length ns) colors = Inr colors"
    by (simp add: check_colors_length_def colors_def len)
  from color_actors_succeeds [OF rs(3), of 0 colors st] obtain st' where
    ca: "color_actors colors 0 rs st = Inr st'"
    by (auto simp: colors_def len rs(2))
  have "snd (neurons_return rs) = None"
    by (simp add: neurons_return_def split: list.splits)
  then obtain res where "neurons_return rs = (res, None)"
    by (cases "neurons_return rs") auto
  with pc cl rs(1) ca show ?thesis
    by (simp add: get_neurons_def try_then_def Let_def)
qed

text \<open>
  With only the apical dendrites in the dict (and their display on), the record's
  dendrites are the apical part as it was given.
\<close>

lemma apical_dendrites_only:
  assumes "map_of d ''apical_dendrites'' = Some apical" "map_of d ''basal_dendrites'' = None"
    and "render_neuron B display_axon True (NeuronDict d) = Inr r"
  shows "dendrites r = apical"
proof -
  have "neuron_to_actors B (NeuronDict d)
      = Inr \<lparr>soma = dict_pop d ''soma'' Absent, dendrites = apical, axon = dict_pop d ''axon'' Absent\<rparr>"
    using assms(1,2) by (simp add: neuron_to_actors_def neuron_dict_actors_def Let_def)
  with assms(3) show ?thesis
    by (auto simp: render_neuron_def try_then_def check_actors_def display_parts_def
        split: if_splits)
qed

text \<open>
  C1. A neuron given as a dict with both the keys apical_dendrites and basal_dendrites
  makes \<open>get_neurons\<close> raise NameError, whatever the other entries, the colour name
  and the display flags are: no record with merged dendrites is returned.
\<close>

theorem apical_and_basal_dendrites_raise:
  "get_neurons B
     (Single (NeuronDict ((''apical_dendrites'', apical) # (''basal_dendrites'', basal) # others)))
     (PStr name) display_axon display_dendrites st
   = Inl NameError"
  by (simp add: get_neurons_def prepare_colors_def check_colors_length_def try_then_def
      render_neuron_def neuron_to_actors_def neuron_dict_actors_def Let_def)

text \<open>
  C2. With a list of per-part colour dicts, one per neuron, \<open>get_neurons\<close> raises
  AttributeError: for one neuron and any dict, and for two neurons and two dicts with
  a soma key.
\<close>

theorem list_of_color_dicts_raises:
  "get_neurons B (Single n) (PList [PDict d]) display_axon display_dendrites st
     = Inl AttributeError
   \<and> get_neurons B (Listed [NeuronActor 0, NeuronActor 1])
       (PList [PDict [(''soma'', PStr ''red'')],
               PDict [(''soma'', PStr ''blue''), (''axon'', PStr ''green'')]])
       display_axon display_dendrites st
     = Inl AttributeError"
  by (simp add: get_neurons_def prepare_colors_def list_colors_def try_then_def Let_def)

text \<open>
  C6. Whenever \<open>get_neurons\<close> returns, there is one record per neuron given, in the
  order given: the record of the i-th neuron is what lines 331-382 make of that neuron
  (its parts, with axon and dendrites removed when their display is switched off), and
  its soma is an actor that has been given a colour. One record is returned as it is,
  several as a list, and none as \<open>None\<close>; the second component of the returned pair
  is \<open>None\<close>. The call does return on the empty list with a colour name, and on
  every list of whole-neuron actors with a colour name.
\<close>

theorem get_neurons_one_record_per_neuron:
  "(get_neurons B neurons color display_axon display_dendrites st = Inr ((res, extra), st') \<longrightarrow>
     (\<exists>records.
        length records = length (case neurons of Single n \<Rightarrow> [n] | Listed ns \<Rightarrow> ns)
      \<and> (\<forall>i<length records.
            render_neuron B display_axon display_dendrites
              ((case neurons of Single n \<Rightarrow> [n] | Listed ns \<Rightarrow> ns) ! i) = Inr (records ! i)
          \<and> (\<exists>a. soma (records ! i) = Actor a \<and> st' a \<noteq> None))
      \<and> extra = None
      \<and> res = (case records of [] \<Rightarrow> NoNeurons | [r] \<Rightarrow> OneNeuron r | _ \<Rightarrow> ManyNeurons records)))
   \<and> get_neurons B (Listed []) (PStr name) display_axon display_dendrites st
       = Inr ((NoNeurons, None), st)
   \<and> ((\<forall>n\<in>set actors. \<exists>a. n = NeuronActor a) \<longrightarrow>
        (\<exists>res' st''. get_neurons B (Listed actors) (PStr name) display_axon display_dendrites st
           = Inr ((res', None), st'')))"
proof (intro conjI impI)
  assume g: "get_neurons B neurons color display_axon display_dendrites st = Inr ((res, extra), st')"
  define ns where "ns = (case neurons of Single n \<Rightarrow> [n] | Listed ns \<Rightarrow> ns)"
  from g obtain colors records where
    rn: "render_neurons B display_axon display_dendrites ns = Inr records"
    and ca: "color_actors colors 0 records st = Inr st'"
    and ret: "neurons_return records = (res, extra)"
    by (auto simp: get_neurons_def Let_def try_then_Inr ns_def)
  from render_neurons_nth [OF rn] have
    len: "length records = length ns"
    and nth: "\<forall>i<length ns. render_neuron B display_axon display_dendrites (ns ! i) = Inr (records ! i)"
    by auto
  from color_actors_colored [OF ca] have
    col: "\<forall>r\<in>set records. \<exists>a. soma r = Actor a \<and> st' a \<noteq> None"
    by auto
  from ret have "extra = None"
    and "res = (case records of [] \<Rightarrow> NoNeurons | [r] \<Rightarrow> OneNeuron r | _ \<Rightarrow> ManyNeurons records)"
    by (auto simp: neurons_return_def split: list.splits)
  with len nth col show "\<exists>records.
        length records = length (case neurons of Single n \<Rightarrow> [n] | Listed ns \<Rightarrow> ns)
      \<and> (\<forall>i<length records.
            render_neuron B display_axon display_dendrites
              ((case neurons of Single n \<Rightarrow> [n] | Listed ns \<Rightarrow> ns) ! i) = Inr (records ! i)
          \<and> (\<exists>a. soma (records ! i) = Actor a \<and> st' a \<noteq> None))
      \<and> extra = None
      \<and> res = (case records of [] \<Rightarrow> NoNeurons | [r] \<Rightarrow> OneNeuron r | _ \<Rightarrow> ManyNeurons records)"
    unfolding ns_def [symmetric] by (intro exI [of _ records]) auto
next
  show "get_neurons B (Listed []) (PStr name) display_axon display_dendrites st
       = Inr ((NoNeurons, None), st)"
    by (simp add: get_neurons_def prepare_colors_def check_colors_length_def try_then_def
        neurons_return_def Let_def)
next
  assume "\<forall>n\<in>set actors. \<exists>a. n = NeuronActor a"
  then show "\<exists>res' st''. get_neurons B (Listed actors) (PStr name) display_axon display_dendrites st
           = Inr ((res', None), st'')"
    by (rule get_neurons_of_actors_returns)
qed

lemma example_single_neuron:
  "get_neurons example_brainrender (Single (NeuronDict [(''soma'', Actor 7)])) (PStr ''red'')
       False False (\<lambda>a. None)
     = Inr ((OneNeuron \<lparr>soma = Actor 7, dendrites = Absent, axon = Absent\<rparr>, None),
            (\<lambda>a. None)(7 := Some (PStr ''red'')))"
  by (simp add: get_neurons_def prepare_colors_def check_colors_length_def try_then_def
      render_neuron_def neuron_to_actors_def neuron_dict_actors_def check_actors_def
      display_parts_def dict_pop_def set_c_def py_index_def neurons_return_def Let_def
      example_brainrender_fields)

lemma example_two_neurons:
  "get_neurons example_brainrender
       (Listed [NeuronActor 1, NeuronDict [(''soma'', Actor 2), (''apical_dendrites'', Actor 3)]])
       (PList [PStr ''red'', PStr ''blue'']) True True (\<lambda>a. None)
     = Inr ((ManyNeurons [\<lparr>soma = Actor 1, dendrites = Absent, axon = Absent\<rparr>,
                          \<lparr>soma = Actor 2, dendrites = Actor 3, axon = Absent\<rparr>], None),
            (\<lambda>a. None)(1 := Some (PStr ''red''), 2 := Some (PStr ''blue''),
                         3 := Some (PStr ''blue'')))"
  by (simp add: get_neurons_def prepare_colors_def list_colors_def check_colors_length_def
      try_then_def render_neuron_def neuron_to_actors_def neuron_dict_actors_def
      check_actors_def display_parts_def dict_pop_def set_c_def py_index_def
      neurons_return_def Let_def)

theorem get_neurons_one_record_per_neuron_witness:
  "get_neurons example_brainrender (Single (NeuronDict [(''soma'', Actor 7)])) (PStr ''red'')
       False False (\<lambda>a. None)
     = Inr ((OneNeuron \<lparr>soma = Actor 7, dendrites = Absent, axon = Absent\<rparr>, None),
            (\<lambda>a. None)(7 := Some (PStr ''red'')))
   \<and> render_neuron example_brainrender False False (NeuronDict [(''soma'', Actor 7)])
     = Inr \<lparr>soma = Actor 7, dendrites = Absent, axon = Absent\<rparr>
   \<and> get_neurons example_brainrender
       (Listed [NeuronActor 1, NeuronDict [(''soma'', Actor 2), (''apical_dendrites'', Actor 3)]])
       (PList [PStr ''red'', PStr ''blue'']) True True (\<lambda>a. None)
     = Inr ((ManyNeurons [\<lparr>soma = Actor 1, dendrites = Absent, axon = Absent\<rparr>,
                          \<lparr>soma = Actor 2, dendrites = Actor 3, axon = Absent\<rparr>], None),
            (\<lambda>a. None)(1 := Some (PStr ''red''), 2 := Some (PStr ''blue''),
                         3 := Some (PStr ''blue'')))"
  using get_neurons_one_record_per_neuron
    [of example_brainrender "Single (NeuronDict [(''soma'', Actor 7)])" "PStr ''red''"
        False False "\<lambda>a. None"
        "OneNeuron \<lparr>soma = Actor 7, dendrites = Absent, axon = Absent\<rparr>" None
        "(\<lambda>a. None)(7 := Some (PStr ''red''))"]
    example_single_neuron example_two_neurons
  by (simp add: render_neuron_def neuron_to_actors_def neuron_dict_actors_def check_actors_def
      display_parts_def dict_pop_def try_then_def)

subsection \<open>get_tractography\<close>

lemma zero_alpha_step:
  "resolved_alpha B self kw t = Inr 0 \<Longrightarrow> tractography_step B self kw t color = Inr []"
  by (simp add: tractography_step_def try_then_def)

lemma tractography_loop_concat:
  "tractography_loop B self kw pairs acc = Inr actors \<Longrightarrow>
     actors = acc @ concat (map (\<lambda>(t, color).
        case tractography_step B self kw t color of Inr new \<Rightarrow> new | Inl e \<Rightarrow> []) pairs)"
proof (induction pairs arbitrary: acc)
  case Nil
  then show ?case by simp
next
  case (Cons p pairs)
  obtain t color where p: "p = (t, color)"
    by (cases p)
  from Cons.prems p obtain new where
    new: "tractography_step B self kw t color = Inr new"
    and rest: "tractography_loop B self kw pairs (acc @ new) = Inr actors"
    by (auto simp: try_then_Inr)
  from Cons.IH [OF rest] new p show ?case
    by simp
qed

lemma tractography_loop_filter:
  "tractography_loop B self kw pairs acc = Inr actors \<Longrightarrow>
     tractography_loop B self kw
       (filter (\<lambda>(t, color). resolved_alpha B self kw t \<noteq> Inr 0) pairs) acc = Inr actors"
proof (induction pairs arbitrary: acc)
  case Nil
  then show ?case by simp
next
  case (Cons p pairs)
  obtain t color where p: "p = (t, color)"
    by (cases p)
  from Cons.prems p obtain new where
    new: "tractography_step B self kw t color = Inr new"
    and rest: "tractography_loop B self kw pairs (acc @ new) = Inr actors"
    by (auto simp: try_then_Inr)
  show ?case
  proof (cases "resolved_alpha B self kw t = Inr 0")
    case True
    with new have "new = []"
      by (simp add: zero_alpha_step)
    with Cons.IH [OF rest] True p show ?thesis
      by simp
  next
    case False
    with Cons.IH [OF rest] new p show ?thesis
      by (simp add: try_then_def)
  qed
qed

text \<open>
  C7. Whenever \<open>get_tractography\<close> returns, the geometry list is the concatenation,
  in the order of the records, of what each record appends, and a record whose opacity
  resolves to zero appends nothing, neither sphere nor tube: the list is the very list
  the loop builds from the records with the zero-opacity ones taken out.
\<close>

theorem zero_opacity_records_are_dropped:
  assumes "get_tractography B self tractography kw = Inr actors"
  shows "\<exists>ts COLORS.
           tractography_list tractography = Inr ts
         \<and> tractography_colors B self kw ts = Inr COLORS
         \<and> actors = concat (map (\<lambda>(t, color).
               if resolved_alpha B self kw t = Inr 0 then []
               else case tractography_step B self kw t color of Inr new \<Rightarrow> new | Inl e \<Rightarrow> [])
             (zip ts COLORS))
         \<and> tractography_loop B self kw
               (filter (\<lambda>(t, color). resolved_alpha B self kw t \<noteq> Inr 0) (zip ts COLORS)) []
             = Inr actors"
proof -
  from assms obtain ts COLORS where
    ts: "tractography_list tractography = Inr ts"
    and cols: "tractography_colors B self kw ts = Inr COLORS"
    and loop: "tractography_loop B self kw (zip ts COLORS) [] = Inr actors"
    by (auto simp: get_tractography_def try_then_Inr)
  have same: "(\<lambda>(t, color). if resolved_alpha B self kw t = Inr 0 then []
               else case tractography_step B self kw t color of Inr new \<Rightarrow> new | Inl e \<Rightarrow> [])
            = (\<lambda>(t, color). case tractography_step B self kw t color of Inr new \<Rightarrow> new | Inl e \<Rightarrow> [])"
    by (auto simp: fun_eq_iff zero_alpha_step)
  from tractography_loop_concat [OF loop] have
    "actors = concat (map (\<lambda>(t, color).
               if resolved_alpha B self kw t = Inr 0 then []
               else case tractography_step B self kw t color of Inr new \<Rightarrow> new | Inl e \<Rightarrow> [])
             (zip ts COLORS))"
    unfolding same by simp
  with ts cols tractography_loop_filter [OF loop] show ?thesis
    by blast
qed

lemma example_parent:
  "get_structure_parent example_atlas ''MOs'' = Inr MOs"
  "get_structure_parent example_atlas ''VISp'' = Inr VISp"
  by (simp_all add: get_structure_parent_def example_atlas_fields VISp_def MOs_def)

lemma example_alpha:
  "resolved_alpha example_brainrender example_atlas example_kwargs (example_tract ''MOs'' 0) = Inr 0"
  "resolved_alpha example_brainrender example_atlas example_kwargs (example_tract ''VISp'' 0) = Inr 1"
  by (simp_all add: resolved_alpha_def inj_structures_of_def example_parent example_tract_fields
      example_kwargs_fields example_brainrender_fields try_then_def VISp_def MOs_def)

lemma example_colors:
  "tractography_colors example_brainrender example_atlas example_kwargs
     [example_tract ''MOs'' 0, example_tract ''VISp'' 0] = Inr [PStr ''white'', PStr ''red'']"
  by (simp add: tractography_colors_def example_tract_fields
      example_kwargs_fields example_brainrender_fields)

lemma example_tractography:
  "get_tractography example_brainrender example_atlas
     (TractList [example_tract ''MOs'' 0, example_tract ''VISp'' 0]) example_kwargs
   = Inr [Sphere [25, 0, 0] (PStr ''red'') 12 1,
          Tube [[25, 0, 0], [30, 5, 0]] 30 (PStr ''red'') 1 12]"
  by (simp add: get_tractography_def tractography_list_def example_colors
      tractography_step_def example_alpha keep_by_inj_coords_def tract_actors_def try_then_def
      example_tract_fields example_kwargs_fields example_brainrender_fields)

theorem zero_opacity_records_are_dropped_witness:
  "get_tractography example_brainrender example_atlas
     (TractList [example_tract ''MOs'' 0, example_tract ''VISp'' 0]) example_kwargs
   = Inr [Sphere [25, 0, 0] (PStr ''red'') 12 1,
          Tube [[25, 0, 0], [30, 5, 0]] 30 (PStr ''red'') 1 12]
   \<and> resolved_alpha example_brainrender example_atlas example_kwargs (example_tract ''MOs'' 0)
     = Inr 0
   \<and> resolved_alpha example_brainrender example_atlas example_kwargs (example_tract ''VISp'' 0)
     = Inr 1"
  using zero_opacity_records_are_dropped [OF example_tractography] example_tractography
    example_alpha
  by simp

subsection \<open>Colour lists of the wrong length\<close>

text \<open>
  C5, as amended. \<open>get_neurons\<close> with a list or tuple of colours whose length is not
  the number of neurons raises ValueError, whatever the neurons are. \<open>get_tractography\<close>
  in the mode "manual" with a list of colours whose length is not the number of records
  (one dict, or a list of at least one) raises ValueError, whatever the records are.
  \<open>get_brain_regions\<close> raises ValueError for a list or tuple of colours whose length
  is not the number of regions when the atlas has region data and the first colour is
  itself a list or a tuple.
\<close>

theorem color_list_length_mismatch_raises:
  "(length cs \<noteq> length ns \<longrightarrow>
      get_neurons B (Listed ns) (PList cs) display_axon display_dendrites st = Inl ValueError
    \<and> get_neurons B (Listed ns) (PTuple cs) display_axon display_dendrites st = Inl ValueError)
   \<and> (length cs \<noteq> 1 \<longrightarrow>
      get_neurons B (Single n) (PList cs) display_axon display_dendrites st = Inl ValueError
    \<and> get_neurons B (Single n) (PTuple cs) display_axon display_dendrites st = Inl ValueError)
   \<and> (color_by kw = ''manual'' \<longrightarrow> color_arg kw = PList cs \<longrightarrow>
      length cs \<noteq> length (t # ts) \<longrightarrow>
      get_tractography B self (TractList (t # ts)) kw = Inl ValueError)
   \<and> (color_by kw = ''manual'' \<longrightarrow> color_arg kw = PList cs \<longrightarrow> length cs \<noteq> 1 \<longrightarrow>
      get_tractography B self (TractDict t) kw = Inl ValueError)
   \<and> (region_acronyms self \<noteq> None \<longrightarrow> type_of c0 = TList \<or> type_of c0 = TTuple \<longrightarrow>
      length (c0 # cs) \<noteq> length (case brain_regions of Single r \<Rightarrow> [r] | Listed rs \<Rightarrow> rs) \<longrightarrow>
      get_brain_regions_args B self brain_regions (PList (c0 # cs)) = Inl ValueError
    \<and> get_brain_regions_args B self brain_regions (PTuple (c0 # cs)) = Inl ValueError)"
proof (intro conjI impI)
  assume "length cs \<noteq> length ns"
  then show "get_neurons B (Listed ns) (PList cs) display_axon display_dendrites st = Inl ValueError"
    and "get_neurons B (Listed ns) (PTuple cs) display_axon display_dendrites st = Inl ValueError"
    by (simp_all add: get_neurons_def prepare_colors_def list_colors_def try_then_def Let_def)
next
  assume "length cs \<noteq> 1"
  then show "get_neurons B (Single n) (PList cs) display_axon display_dendrites st = Inl ValueError"
    and "get_neurons B (Single n) (PTuple cs) display_axon display_dendrites st = Inl ValueError"
    by (simp_all add: get_neurons_def prepare_colors_def list_colors_def try_then_def Let_def)
next
  assume "color_by kw = ''manual''" "color_arg kw = PList cs" "length cs \<noteq> length (t # ts)"
  then show "get_tractography B self (TractList (t # ts)) kw = Inl ValueError"
    by (simp add: get_tractography_def tractography_list_def tractography_colors_def try_then_def)
next
  assume "color_by kw = ''manual''" "color_arg kw = PList cs" "length cs \<noteq> 1"
  then show "get_tractography B self (TractDict t) kw = Inl ValueError"
    by (simp add: get_tractography_def tractography_list_def tractography_colors_def try_then_def)
next
  assume a: "region_acronyms self \<noteq> None" "type_of c0 = TList \<or> type_of c0 = TTuple"
    "length (c0 # cs) \<noteq> length (case brain_regions of Single r \<Rightarrow> [r] | Listed rs \<Rightarrow> rs)"
  from a(1) obtain acrs where "region_acronyms self = Some acrs"
    by auto
  with a(2,3) show "get_brain_regions_args B self brain_regions (PList (c0 # cs)) = Inl ValueError"
    and "get_brain_regions_args B self brain_regions (PTuple (c0 # cs)) = Inl ValueError"
    by (auto simp add: get_brain_regions_args_def try_then_def Let_def)
qed

theorem color_list_length_mismatch_raises_witness:
  "length [PStr ''red''] \<noteq> length [NeuronActor 0, NeuronActor 1]
   \<and> get_neurons example_brainrender (Listed [NeuronActor 0, NeuronActor 1])
        (PList [PStr ''red'']) True True (\<lambda>a. None) = Inl ValueError
   \<and> color_by manual_kwargs = ''manual'' \<and> color_arg manual_kwargs = PList [PStr ''red'']
   \<and> get_tractography example_brainrender example_atlas
        (TractList [example_tract ''MOs'' 0, example_tract ''VISp'' 0]) manual_kwargs
      = Inl ValueError
   \<and> region_acronyms example_atlas \<noteq> None
   \<and> get_brain_regions_args example_brainrender example_atlas (Listed [''VISp'', ''MOs''])
        (PList [PList [PInt 1, PInt 0, PInt 0]]) = Inl ValueError"
  using color_list_length_mismatch_raises
    [of "[PStr ''red'']" "[NeuronActor 0, NeuronActor 1]" example_brainrender True True
        "\<lambda>a. None" "NeuronActor 0" manual_kwargs "example_tract ''MOs'' 0"
        "[example_tract ''VISp'' 0]" example_atlas]
    color_list_length_mismatch_raises
    [of "[]" "[]" example_brainrender True True "\<lambda>a. None" "NeuronActor 0" manual_kwargs
        "example_tract ''MOs'' 0" "[]" example_atlas "PList [PInt 1, PInt 0, PInt 0]"
        "Listed [''VISp'', ''MOs'']"]
  by (simp add: manual_kwargs_def example_kwargs_def example_atlas_fields)

theorem brain_regions_color_list_counterexample:
  "get_brain_regions_args example_brainrender example_atlas (Listed [''VISp'', ''MOs''])
       (PList [PStr ''red''])
     = Inr (Regions [''VISp'', ''MOs''] (PList [PList [PStr ''red''], PList [PStr ''red'']]))
   \<and> get_brain_regions_args example_brainrender example_atlas (Listed [''VISp'', ''MOs''])
       (PList [])
     = Inl IndexError
   \<and> get_brain_regions_args example_brainrender (example_atlas\<lparr>region_acronyms := None\<rparr>)
       (Listed [''VISp'', ''MOs'']) (PList [PList [PInt 1, PInt 0, PInt 0]])
     = Inr NoRegionsData"
  by (simp add: get_brain_regions_args_def try_then_def Let_def example_atlas_fields
      example_brainrender_fields)

end
